theory Spec2Isabelle
  imports Main "HOL-Library.Word"
begin

unbundle bit_operations_syntax

section \<open>Frames\<close>

text \<open>
  The server (\<^verbatim>\<open>Server\<close>, in the file that holds \<^verbatim>\<open>serveConn\<close>), the connection
  (\<^verbatim>\<open>Conn\<close>, conn.go) and the handshake helper (upgrader.go) are embedded from their Go
  source. The sources also hold an older variant of the server and of the connection
  (\<^verbatim>\<open>ServerConn\<close>, serverConn.go); it declares \<^verbatim>\<open>acquireConn\<close>, \<^verbatim>\<open>closeError\<close> and
  \<^verbatim>\<open>DefaultPayloadSize\<close> a second time and cannot be part of the same package as conn.go.
  The README, the examples and upgrader.go use \<^verbatim>\<open>Conn\<close>, and so does this embedding.

  The \<^verbatim>\<open>Frame\<close> type that the server and the connection call into is declared in a file
  that is not among the sources, so the frame operations below follow the specification's
  description of the frame value object and of its predicates. The reader task
  (\<^verbatim>\<open>readLoop\<close>) only decodes frames with the missing codec and puts them on the inbound
  queue; the frames it delivers are the contents of that queue here.
\<close>

type_synonym byte = "8 word"
type_synonym bytes = "byte list"

text \<open>
  Modelled from the spec: the status codes are ``1000 normal, 1001 going-away, ..., plus
  the "none" sentinel meaning "no status in close payload"''. The declaration of
  \<^verbatim>\<open>StatusCode\<close> and \<^verbatim>\<open>StatusNone\<close> is missing; the sentinel is kept apart from the
  16-bit codes that travel on the wire.
\<close>

datatype StatusCode = StatusNone | StatusValue "16 word"

text \<open>
  Modelled from the spec: a frame has a FIN flag, an opcode, a MASK flag, an optional 4-byte
  masking key and payload bytes; a configured maximum payload size is enforced on it. The
  declaration of \<^verbatim>\<open>Frame\<close> is missing. The three reserved bits and the length code play no
  part in the handlers and are left out.
\<close>

record Frame =
  fin :: bool
  opcode :: "4 word"
  masked :: bool
  maskKey :: "byte \<times> byte \<times> byte \<times> byte"
  raw :: bytes
  maxSize :: "64 word"

text \<open>Modelled from the spec: ``Opcodes: 0=cont, 1=text, 2=binary, 8=close, 9=ping, 10=pong''.\<close>

definition CodeContinuation :: "4 word" where "CodeContinuation = 0"
definition CodeText :: "4 word" where "CodeText = 1"
definition CodeBinary :: "4 word" where "CodeBinary = 2"
definition CodeClose :: "4 word" where "CodeClose = 8"
definition CodePing :: "4 word" where "CodePing = 9"
definition CodePong :: "4 word" where "CodePong = 10"

text \<open>\<^verbatim>\<open>const DefaultPayloadSize = 1 << 20\<close> (conn.go).\<close>

definition DefaultPayloadSize :: "64 word" where
  "DefaultPayloadSize = push_bit 20 1"

text \<open>
  Modelled from the spec: frames are pooled; \<^verbatim>\<open>AcquireFrame\<close> hands out a reset frame
  (flags clear, continuation opcode, empty payload) and \<^verbatim>\<open>ReleaseFrame\<close> returns it to the
  pool, which has no effect on the values computed here.
\<close>

definition AcquireFrame :: Frame where
  "AcquireFrame = \<lparr>fin = False, opcode = 0, masked = False, maskKey = (0, 0, 0, 0),
                    raw = [], maxSize = DefaultPayloadSize\<rparr>"

text \<open>Modelled from the spec: the predicates \<^verbatim>\<open>is_fin\<close>, \<^verbatim>\<open>is_control\<close> (opcode \<open>\<ge> 8\<close>),
  \<^verbatim>\<open>is_ping\<close>, \<^verbatim>\<open>is_pong\<close>, \<^verbatim>\<open>is_close\<close> and \<^verbatim>\<open>code\<close>.\<close>

definition IsFin :: "Frame \<Rightarrow> bool" where "IsFin fr = fin fr"
definition IsMasked :: "Frame \<Rightarrow> bool" where "IsMasked fr = masked fr"
definition Code :: "Frame \<Rightarrow> 4 word" where "Code fr = opcode fr"
definition IsControl :: "Frame \<Rightarrow> bool" where "IsControl fr = (8 \<le> opcode fr)"
definition IsPing :: "Frame \<Rightarrow> bool" where "IsPing fr = (opcode fr = CodePing)"
definition IsPong :: "Frame \<Rightarrow> bool" where "IsPong fr = (opcode fr = CodePong)"
definition IsClose :: "Frame \<Rightarrow> bool" where "IsClose fr = (opcode fr = CodeClose)"

text \<open>
  Modelled from the spec: the setters that the connection and the server use to build a
  frame (``allocate a close frame, set status, set FIN, write the reason bytes into
  payload''; ``a pong frame with the same payload, FIN=1, opcode=pong''). Each sets the one
  attribute it names.
\<close>

definition SetFin :: "Frame \<Rightarrow> Frame" where "SetFin fr = fr\<lparr>fin := True\<rparr>"
definition SetCode :: "4 word \<Rightarrow> Frame \<Rightarrow> Frame" where "SetCode code fr = fr\<lparr>opcode := code\<rparr>"
definition SetClose :: "Frame \<Rightarrow> Frame" where "SetClose fr = SetCode CodeClose fr"
definition SetPing :: "Frame \<Rightarrow> Frame" where "SetPing fr = SetCode CodePing fr"
definition SetText :: "Frame \<Rightarrow> Frame" where "SetText fr = SetCode CodeText fr"
definition SetPayload :: "bytes \<Rightarrow> Frame \<Rightarrow> Frame" where "SetPayload data fr = fr\<lparr>raw := data\<rparr>"
definition SetPayloadSize :: "64 word \<Rightarrow> Frame \<Rightarrow> Frame" where
  "SetPayloadSize n fr = fr\<lparr>maxSize := n\<rparr>"

text \<open>Modelled from the spec: ``write the reason bytes into payload''. The frame is the
  \<^verbatim>\<open>io.Writer\<close> of \<^verbatim>\<open>io.WriteString(fr, reason)\<close>, which appends to the payload; the
  method is missing with the rest of \<^verbatim>\<open>Frame\<close>.\<close>

definition Write_frame :: "bytes \<Rightarrow> Frame \<Rightarrow> Frame" where
  "Write_frame data fr = fr\<lparr>raw := raw fr @ data\<rparr>"

text \<open>
  Modelled from the spec: \<^verbatim>\<open>status\<close> is the ``big-endian u16 from first two payload bytes,
  or a sentinel "none" when payload is empty''; a close payload ``is either empty or begins
  with a 2-byte big-endian status code optionally followed by UTF-8 reason bytes''. A close
  payload of one byte is outside that description and is read as carrying no status.
  \<^verbatim>\<open>Payload\<close> of a close frame is the reason that follows the status (the repository's test
  reads \<^verbatim>\<open>"Bye"\<close> from the payload of a close frame whose status is \<^verbatim>\<open>StatusGoAway\<close>).
\<close>

definition be16 :: "16 word \<Rightarrow> bytes" where
  "be16 w = [ucast (drop_bit 8 w), ucast w]"

definition get_be16 :: "byte \<Rightarrow> byte \<Rightarrow> 16 word" where
  "get_be16 hi lo = push_bit 8 (ucast hi) OR ucast lo"

fun Status_raw :: "bytes \<Rightarrow> StatusCode" where
  "Status_raw (hi # lo # rest) = StatusValue (get_be16 hi lo)"
| "Status_raw rest = StatusNone"

definition Status :: "Frame \<Rightarrow> StatusCode" where
  "Status fr = Status_raw (raw fr)"

definition SetStatus :: "StatusCode \<Rightarrow> Frame \<Rightarrow> Frame" where
  "SetStatus status fr =
     (case status of
        StatusNone \<Rightarrow> fr
      | StatusValue w \<Rightarrow> fr\<lparr>raw := be16 w @ drop 2 (raw fr)\<rparr>)"

definition Payload :: "Frame \<Rightarrow> bytes" where
  "Payload fr = (if IsClose fr then drop 2 (raw fr) else raw fr)"

text \<open>Modelled from the spec: unmasking ``XORs payload with the 4-byte key cycled over its
  length''; it leaves the MASK flag to the caller.\<close>

fun key_at :: "byte \<times> byte \<times> byte \<times> byte \<Rightarrow> nat \<Rightarrow> byte" where
  "key_at (k0, k1, k2, k3) i =
     (if i mod 4 = 0 then k0 else if i mod 4 = 1 then k1 else if i mod 4 = 2 then k2 else k3)"

fun mask_from :: "byte \<times> byte \<times> byte \<times> byte \<Rightarrow> nat \<Rightarrow> bytes \<Rightarrow> bytes" where
  "mask_from key i [] = []"
| "mask_from key i (x # xs) = (x XOR key_at key i) # mask_from key (Suc i) xs"

definition Unmask :: "Frame \<Rightarrow> Frame" where
  "Unmask fr = fr\<lparr>raw := mask_from (maskKey fr) 0 (raw fr)\<rparr>"

section \<open>Channels, errors and outcomes\<close>

text \<open>
  A buffered Go channel \<^verbatim>\<open>make(chan T, n)\<close> is its capacity and the values it holds, oldest
  first. The sources never close \<^verbatim>\<open>input\<close>, \<^verbatim>\<open>output\<close> or \<^verbatim>\<open>errch\<close>, so a receive
  from them never reports \<^verbatim>\<open>ok == false\<close>. The tasks of a connection are sequentialised:
  an operation that has to wait for another task has the value \<open>None\<close> here.
\<close>

record 'a chan =
  cap :: nat
  buf :: "'a list"

definition make_chan :: "nat \<Rightarrow> 'a chan" where
  "make_chan n = \<lparr>cap = n, buf = []\<rparr>"

text \<open>\<^verbatim>\<open>ch <- v\<close>: waits while the buffer is full.\<close>

definition send :: "'a chan \<Rightarrow> 'a \<Rightarrow> 'a chan option" where
  "send ch v = (if length (buf ch) < cap ch then Some (ch\<lparr>buf := buf ch @ [v]\<rparr>) else None)"

text \<open>\<^verbatim>\<open>select { case ch <- v: default: }\<close>: the value is dropped when the buffer is full.\<close>

definition try_send :: "'a chan \<Rightarrow> 'a \<Rightarrow> 'a chan" where
  "try_send ch v = (case send ch v of Some ch' \<Rightarrow> ch' | None \<Rightarrow> ch)"

text \<open>\<^verbatim>\<open><-ch\<close>: waits while the buffer is empty.\<close>

definition recv :: "'a chan \<Rightarrow> ('a \<times> 'a chan) option" where
  "recv ch = (case buf ch of [] \<Rightarrow> None | v # vs \<Rightarrow> Some (v, ch\<lparr>buf := vs\<rparr>))"

definition ready :: "'a chan \<Rightarrow> bool" where
  "ready ch = (buf ch \<noteq> [])"

text \<open>
  Go \<^verbatim>\<open>error\<close> values: \<^verbatim>\<open>closeError{err}\<close> (conn.go), \<^verbatim>\<open>Error{Status, Reason}\<close>
  (error.go) and the errors of the transport, which are opaque here. A nil \<^verbatim>\<open>error\<close> is
  \<open>None\<close>.
\<close>

datatype goerror =
    closeError "goerror option"
  | Error StatusCode bytes
  | errOther string

text \<open>
  How a call ends: it returns, it waits for another task for ever when no other task moves
  (with the state it waits in), or it panics.
\<close>

datatype 'a outcome = Returned 'a | Parked 'a | Panicked

fun and_then :: "'a outcome \<Rightarrow> ('a \<Rightarrow> 'a outcome) \<Rightarrow> 'a outcome" where
  "and_then (Returned x) f = f x"
| "and_then (Parked x) f = Parked x"
| "and_then Panicked f = Panicked"

section \<open>The connection (conn.go)\<close>

text \<open>
  Application callbacks are code outside the repository. A callback is registered or not,
  and what an invocation does is recorded: the event with its arguments is appended to the
  connection's log \<open>calls\<close>.
\<close>

datatype event =
    OnOpen
  | OnFrame Frame
  | OnMessage bool bytes
  | OnPing bytes
  | OnPong bytes
  | OnClose "goerror option"
  | OnError goerror

text \<open>
  The socket with its buffered writer (\<^verbatim>\<open>c\<close>, \<^verbatim>\<open>bw\<close>): the frames written and flushed so
  far, an error that every write meets once the transport is broken, and whether the socket
  was closed. The encoding of a frame into bytes belongs to the missing frame codec.
\<close>

record socket =
  wire :: "Frame list"
  broken :: "goerror option"
  sock_closed :: bool

definition new_socket :: socket where
  "new_socket = \<lparr>wire = [], broken = None, sock_closed = False\<rparr>"

definition sock_write :: "socket \<Rightarrow> Frame \<Rightarrow> socket \<times> goerror option" where
  "sock_write so fr =
     (if sock_closed so then (so, Some (errOther ''use of closed network connection''))
      else case broken so of
             Some e \<Rightarrow> (so, Some e)
           | None \<Rightarrow> (so\<lparr>wire := wire so @ [fr]\<rparr>, None))"

definition sock_Close :: "socket \<Rightarrow> socket" where
  "sock_Close so = so\<lparr>sock_closed := True\<rparr>"

text \<open>
  \<^verbatim>\<open>type Conn struct\<close>. \<^verbatim>\<open>closer\<close> is a channel that is only ever closed, never sent on:
  it is the flag ``closed''. \<^verbatim>\<open>closeOnce\<close> is whether the \<^verbatim>\<open>sync.Once\<close> has run.
  The channels \<^verbatim>\<open>input\<close> and \<^verbatim>\<open>output\<close> are \<open>input_ch\<close> and \<open>output_ch\<close>, the
  field \<^verbatim>\<open>id\<close> is \<open>conn_id\<close>. The user-value context \<^verbatim>\<open>ctx\<close> is left out.
\<close>

record Conn =
  sock :: socket
  input_ch :: "Frame chan"
  output_ch :: "Frame chan"
  closer :: bool
  closeOnce :: bool
  errch :: "goerror option chan"
  buffered :: "bytes option"
  conn_id :: "64 word"
  ReadTimeout :: int
  WriteTimeout :: int
  MaxPayloadSize :: "64 word"
  wg :: int
  calls :: "event list"

definition invoke :: "event \<Rightarrow> Conn \<Rightarrow> Conn" where
  "invoke ev c = c\<lparr>calls := calls c @ [ev]\<rparr>"

text \<open>\<^verbatim>\<open>conn = &Conn{}\<close>: every field has its zero value.\<close>

definition zero_Conn :: Conn where
  "zero_Conn = \<lparr>sock = new_socket, input_ch = make_chan 0, output_ch = make_chan 0,
                 closer = False, closeOnce = False, errch = make_chan 0, buffered = None,
                 conn_id = 0, ReadTimeout = 0, WriteTimeout = 0, MaxPayloadSize = 0,
                 wg = 0, calls = []\<rparr>"

definition reset :: "socket \<Rightarrow> Conn \<Rightarrow> Conn" where
  "reset conn c =
     c\<lparr>input_ch := make_chan 128,
       output_ch := make_chan 128,
       closer := False,
       errch := make_chan 2,
       ReadTimeout := 0,
       WriteTimeout := 0,
       MaxPayloadSize := DefaultPayloadSize,
       sock := conn\<rparr>"

text \<open>\<^verbatim>\<open>acquireConn\<close>; the two \<^verbatim>\<open>go\<close> statements start the reader and the writer.\<close>

definition acquireConn :: "socket \<Rightarrow> Conn" where
  "acquireConn c = (let conn = reset c zero_Conn in conn\<lparr>wg := wg conn + 2\<rparr>)"

text \<open>\<^verbatim>\<open>writeFrame\<close>. The write deadline is real time and is not modelled; \<^verbatim>\<open>WriteTo\<close>
  followed by \<^verbatim>\<open>Flush\<close> is one write on the socket.\<close>

definition writeFrame :: "Frame \<Rightarrow> Conn \<Rightarrow> Conn \<times> goerror option" where
  "writeFrame fr c =
     (let fr' = SetPayloadSize (MaxPayloadSize c) fr;
          (so, err) = sock_write (sock c) fr'
      in (c\<lparr>sock := so\<rparr>, err))"

text \<open>\<^verbatim>\<open>WriteFrame\<close>: \<^verbatim>\<open>c.output <- fr\<close>.\<close>

definition WriteFrame :: "Frame \<Rightarrow> Conn \<Rightarrow> Conn outcome" where
  "WriteFrame fr c =
     (case send (output_ch c) fr of
        None \<Rightarrow> Parked c
      | Some ch \<Rightarrow> Returned (c\<lparr>output_ch := ch\<rparr>))"

definition Ping :: "bytes \<Rightarrow> Conn \<Rightarrow> Conn outcome" where
  "Ping data c = WriteFrame (SetPayload data (SetFin (SetPing AcquireFrame))) c"

definition Write_conn :: "bytes \<Rightarrow> Conn \<Rightarrow> Conn outcome" where
  "Write_conn data c = WriteFrame (SetText (SetPayload data (SetFin AcquireFrame))) c"

definition isClosed :: "Conn \<Rightarrow> bool" where
  "isClosed c = closer c"

text \<open>\<^verbatim>\<open>c.closeOnce.Do(func() { close(c.closer) })\<close>; closing a closed channel panics.\<close>

definition closeOnce_Do :: "Conn \<Rightarrow> Conn outcome" where
  "closeOnce_Do c =
     (if closeOnce c then Returned c
      else if closer c then Panicked
      else Returned (c\<lparr>closeOnce := True, closer := True\<rparr>))"

definition CloseDetail :: "StatusCode \<Rightarrow> bytes \<Rightarrow> Conn \<Rightarrow> Conn outcome" where
  "CloseDetail status reason c =
     (if \<not> isClosed c then
        (let fr = Write_frame reason (SetFin (SetStatus status (SetClose AcquireFrame)))
         in and_then (WriteFrame fr c) closeOnce_Do)
      else Returned c)"

definition Close :: "Conn \<Rightarrow> Conn outcome" where
  "Close c = CloseDetail StatusNone [] c"

text \<open>Local close invoked once per (status, reason) of the list, one call after the other.\<close>

fun CloseDetail_times :: "(StatusCode \<times> bytes) list \<Rightarrow> Conn \<Rightarrow> Conn outcome" where
  "CloseDetail_times [] c = Returned c"
| "CloseDetail_times ((status, reason) # rest) c =
     and_then (CloseDetail status reason c) (CloseDetail_times rest)"

subsection \<open>The writer task\<close>

text \<open>
  The flush loop \<^verbatim>\<open>for n := len(c.output); n >= 0; n-- { fr, ok := <-c.output; ... }\<close>.
  The receive is a blocking one.
\<close>

function flush_loop :: "int \<Rightarrow> Conn \<Rightarrow> Conn outcome" where
  "flush_loop n c =
     (if n \<ge> 0 then
        (case recv (output_ch c) of
           None \<Rightarrow> Parked c
         | Some (fr, ch) \<Rightarrow>
             (case writeFrame fr (c\<lparr>output_ch := ch\<rparr>) of
                (c1, Some err) \<Rightarrow> Returned c1
              | (c1, None) \<Rightarrow> flush_loop (n - 1) c1))
      else Returned c)"
  by pat_completeness auto
termination
  by (relation "measure (\<lambda>(n, c). nat (n + 1))") auto

text \<open>
  The \<^verbatim>\<open>select\<close> loop of \<^verbatim>\<open>writeLoop\<close>. When both the outbound queue and the closer latch
  are ready, Go picks one of the two cases at random: the head of \<open>picks\<close> says whether
  the latch is taken (an empty list takes the queue). \<^verbatim>\<open>return\<close> after a close frame
  skips the flush loop, \<^verbatim>\<open>break loop\<close> enters it.
\<close>

function writeLoop_select :: "bool list \<Rightarrow> Conn \<Rightarrow> Conn outcome" where
  "writeLoop_select picks c =
     (case recv (output_ch c) of
        None \<Rightarrow>
          if closer c then flush_loop (int (length (buf (output_ch c)))) c else Parked c
      | Some (fr, ch) \<Rightarrow>
          if closer c \<and> (case picks of [] \<Rightarrow> False | p # ps \<Rightarrow> p)
          then flush_loop (int (length (buf (output_ch c)))) c
          else
            (let (c1, err) = writeFrame fr (c\<lparr>output_ch := ch\<rparr>);
                 c2 = (case err of
                         None \<Rightarrow> c1
                       | Some e \<Rightarrow> c1\<lparr>errch := try_send (errch c1) (Some (closeError (Some e)))\<rparr>)
             in if IsClose fr then Returned c2
                else writeLoop_select (if closer c then tl picks else picks) c2))"
  by pat_completeness auto
termination
  by (relation "measure (\<lambda>(picks, c). length (buf (output_ch c)))")
     (auto simp: recv_def writeFrame_def split: list.splits prod.splits option.splits)

text \<open>\<^verbatim>\<open>writeLoop\<close> with its deferred \<^verbatim>\<open>c.wg.Done()\<close>.\<close>

definition writeLoop :: "bool list \<Rightarrow> Conn \<Rightarrow> Conn outcome" where
  "writeLoop picks c =
     (case writeLoop_select picks c of
        Returned c1 \<Rightarrow> Returned (c1\<lparr>wg := wg c1 - 1\<rparr>)
      | Parked c1 \<Rightarrow> Parked c1
      | Panicked \<Rightarrow> Panicked)"

section \<open>The server\<close>

text \<open>
  \<^verbatim>\<open>type Server struct\<close>. A callback field is whether a callback is registered. The frame
  handler is nil, the server's own \<^verbatim>\<open>handleFrame\<close>, or a raw-frame handler of the
  application. The upgrade hooks are part of the HTTP glue and are left out.
\<close>

datatype FrameHandler = Server_handleFrame | User_frameHandler

record Server =
  Protocols :: "string list"
  Origin :: string
  nextID :: "64 word"
  openHandler :: bool
  frHandler :: "FrameHandler option"
  closeHandler :: bool
  msgHandler :: bool
  pingHandler :: bool
  pongHandler :: bool
  errHandler :: bool

definition initServer :: "Server \<Rightarrow> Server" where
  "initServer s = (if frHandler s \<noteq> None then s else s\<lparr>frHandler := Some Server_handleFrame\<rparr>)"

definition HandleData :: "Server \<Rightarrow> Server" where "HandleData s = s\<lparr>msgHandler := True\<rparr>"
definition HandleOpen :: "Server \<Rightarrow> Server" where "HandleOpen s = s\<lparr>openHandler := True\<rparr>"
definition HandleClose :: "Server \<Rightarrow> Server" where "HandleClose s = s\<lparr>closeHandler := True\<rparr>"
definition HandlePing :: "Server \<Rightarrow> Server" where "HandlePing s = s\<lparr>pingHandler := True\<rparr>"
definition HandlePong :: "Server \<Rightarrow> Server" where "HandlePong s = s\<lparr>pongHandler := True\<rparr>"
definition HandleError :: "Server \<Rightarrow> Server" where "HandleError s = s\<lparr>errHandler := True\<rparr>"
definition HandleFrame :: "Server \<Rightarrow> Server" where
  "HandleFrame s = s\<lparr>frHandler := Some User_frameHandler\<rparr>"

subsection \<open>The default frame handler\<close>

text \<open>
  \<^verbatim>\<open>handleFrameData\<close>. \<^verbatim>\<open>data\<close> starts as the nil slice; a buffer taken from the pool
  and reset is empty; \<^verbatim>\<open>bf.Write\<close> appends. The first component of the pair is \<^verbatim>\<open>data\<close>
  after the \<^verbatim>\<open>if\<close>.
\<close>

definition handleFrameData :: "Server \<Rightarrow> Frame \<Rightarrow> Conn \<Rightarrow> Conn" where
  "handleFrameData s fr c =
     (let isBinary = (Code fr = CodeBinary);
          (data, c1) =
            (case buffered c of
               None \<Rightarrow>
                 if IsFin fr then (Payload fr, c)
                 else ([], c\<lparr>buffered := Some ([] @ Payload fr)\<rparr>)
             | Some bf \<Rightarrow>
                 if IsFin fr then (bf @ Payload fr, c\<lparr>buffered := None\<rparr>)
                 else ([], c\<lparr>buffered := Some (bf @ Payload fr)\<rparr>))
      in if length data \<noteq> 0 \<and> msgHandler s then invoke (OnMessage isBinary data) c1 else c1)"

definition handlePing :: "Server \<Rightarrow> bytes \<Rightarrow> Conn \<Rightarrow> Conn outcome" where
  "handlePing s data c =
     (let c1 = (if pingHandler s then invoke (OnPing data) c else c);
          pong = SetFin (SetPayload data (SetCode CodePong AcquireFrame))
      in WriteFrame pong c1)"

definition handlePong :: "Server \<Rightarrow> bytes \<Rightarrow> Conn \<Rightarrow> Conn" where
  "handlePong s data c = (if pongHandler s then invoke (OnPong data) c else c)"

text \<open>
  \<^verbatim>\<open>handleClose\<close>. The send on \<^verbatim>\<open>errch\<close> and the send on \<^verbatim>\<open>output\<close> are blocking ones;
  the deferred \<^verbatim>\<open>closeOnce.Do\<close> runs when the function returns.
\<close>

definition handleClose :: "Server \<Rightarrow> Frame \<Rightarrow> Conn \<Rightarrow> Conn outcome" where
  "handleClose s fr c =
     (case send (errch c)
             (if Status fr \<noteq> StatusNone then Some (Error (Status fr) (Payload fr)) else None) of
        None \<Rightarrow> Parked c
      | Some ch \<Rightarrow>
          (let c1 = c\<lparr>errch := ch\<rparr>;
               status = Status fr;
               fr' = SetFin (SetStatus status (SetClose AcquireFrame))
           in and_then (WriteFrame fr' c1) closeOnce_Do))"

definition handleControl :: "Server \<Rightarrow> Frame \<Rightarrow> Conn \<Rightarrow> Conn outcome" where
  "handleControl s fr c =
     (if IsPing fr then handlePing s (Payload fr) c
      else if IsPong fr then Returned (handlePong s (Payload fr) c)
      else if IsClose fr then handleClose s fr c
      else Returned c)"

definition handleFrame :: "Server \<Rightarrow> Frame \<Rightarrow> Conn \<Rightarrow> Conn outcome" where
  "handleFrame s fr c =
     (let fr1 = (if IsMasked fr then Unmask fr else fr)
      in if IsControl fr1 then handleControl s fr1 c
         else Returned (handleFrameData s fr1 c))"

text \<open>\<^verbatim>\<open>s.frHandler(c, fr)\<close>: calling a nil function value panics.\<close>

definition call_frHandler :: "Server \<Rightarrow> Frame \<Rightarrow> Conn \<Rightarrow> Conn outcome" where
  "call_frHandler s fr c =
     (case frHandler s of
        None \<Rightarrow> Panicked
      | Some Server_handleFrame \<Rightarrow> handleFrame s fr c
      | Some User_frameHandler \<Rightarrow> Returned (invoke (OnFrame fr) c))"

text \<open>The frame handler applied to the frames of a list, one after the other.\<close>

fun handleFrames :: "Server \<Rightarrow> Frame list \<Rightarrow> Conn \<Rightarrow> Conn outcome" where
  "handleFrames s [] c = Returned c"
| "handleFrames s (fr # frs) c = and_then (handleFrame s fr c) (handleFrames s frs)"

subsection \<open>The supervisor\<close>

text \<open>
  The \<^verbatim>\<open>select\<close> of \<^verbatim>\<open>serveConn\<close> has three cases. Go takes a ready case at random when
  several are ready and waits when none is. The head of \<open>picks\<close> is the case the runtime
  takes in this round; when that case is not ready (or the list is empty) the first ready
  case in source order is taken.
\<close>

datatype pick = PickInput | PickErrch | PickCloser

definition case_ready :: "Conn \<Rightarrow> pick \<Rightarrow> bool" where
  "case_ready c p =
     (case p of PickInput \<Rightarrow> ready (input_ch c)
              | PickErrch \<Rightarrow> ready (errch c)
              | PickCloser \<Rightarrow> closer c)"

definition first_ready :: "Conn \<Rightarrow> pick option" where
  "first_ready c =
     (if ready (input_ch c) then Some PickInput
      else if ready (errch c) then Some PickErrch
      else if closer c then Some PickCloser
      else None)"

definition select_case :: "pick list \<Rightarrow> Conn \<Rightarrow> pick option" where
  "select_case picks c =
     (case picks of
        [] \<Rightarrow> first_ready c
      | p # ps \<Rightarrow> if case_ready c p then Some p else first_ready c)"

text \<open>
  The body of \<^verbatim>\<open>case err := <-c.errch\<close>: \<open>Inl\<close> is \<^verbatim>\<open>break loop\<close> with the value of
  \<^verbatim>\<open>closeErr\<close>, \<open>Inr\<close> goes round the loop again.
\<close>

fun serveConn_errch ::
  "Server \<Rightarrow> goerror option \<Rightarrow> goerror option \<Rightarrow> Conn \<Rightarrow> (Conn \<times> goerror option) + Conn" where
  "serveConn_errch s None closeErr c = Inl (c, closeErr)"
| "serveConn_errch s (Some (closeError e)) closeErr c = Inl (c, e)"
| "serveConn_errch s (Some (Error status reason)) closeErr c = Inl (c, Some (Error status reason))"
| "serveConn_errch s (Some (errOther m)) closeErr c =
     Inr (if errHandler s then invoke (OnError (errOther m)) c else c)"

function serveConn_loop ::
  "Server \<Rightarrow> pick list \<Rightarrow> goerror option \<Rightarrow> Conn \<Rightarrow> (Conn \<times> goerror option) outcome" where
  "serveConn_loop s picks closeErr c =
     (case select_case picks c of
        None \<Rightarrow> Parked (c, closeErr)
      | Some PickInput \<Rightarrow>
          (case recv (input_ch c) of
             None \<Rightarrow> Parked (c, closeErr)
           | Some (fr, ch) \<Rightarrow>
               (case call_frHandler s fr (c\<lparr>input_ch := ch\<rparr>) of
                  Returned c1 \<Rightarrow> serveConn_loop s (tl picks) closeErr c1
                | Parked c1 \<Rightarrow> Parked (c1, closeErr)
                | Panicked \<Rightarrow> Panicked))
      | Some PickErrch \<Rightarrow>
          (case recv (errch c) of
             None \<Rightarrow> Parked (c, closeErr)
           | Some (err, ch) \<Rightarrow>
               (case serveConn_errch s err closeErr (c\<lparr>errch := ch\<rparr>) of
                  Inl r \<Rightarrow> Returned r
                | Inr c1 \<Rightarrow> serveConn_loop s (tl picks) closeErr c1))
      | Some PickCloser \<Rightarrow> Returned (c, closeErr))"
  by pat_completeness auto
termination
  by (relation "measure (\<lambda>(s, picks, closeErr, c).
                  2 * length (buf (input_ch c)) + length (buf (errch c)))")
     (auto simp: recv_def call_frHandler_def handleFrame_def handleControl_def handlePing_def
                 handlePong_def handleClose_def handleFrameData_def WriteFrame_def
                 closeOnce_Do_def invoke_def send_def Let_def
           split: list.splits option.splits if_splits FrameHandler.splits prod.splits
           elim!: serveConn_errch.elims)

text \<open>
  \<^verbatim>\<open>serveConn\<close>: the loop, the close callback, \<^verbatim>\<open>c.c.Close()\<close> and \<^verbatim>\<open>c.wg.Wait()\<close>,
  which waits until the reader and the writer are done.
\<close>

definition serveConn :: "Server \<Rightarrow> pick list \<Rightarrow> Conn \<Rightarrow> Conn outcome" where
  "serveConn s picks c =
     (case serveConn_loop s picks None c of
        Returned (c1, closeErr) \<Rightarrow>
          (let c2 = (if closeHandler s then invoke (OnClose closeErr) c1 else c1);
               c3 = c2\<lparr>sock := sock_Close (sock c2)\<rparr>
           in if wg c3 = 0 then Returned c3 else Parked c3)
      | Parked (c1, closeErr) \<Rightarrow> Parked c1
      | Panicked \<Rightarrow> Panicked)"

text \<open>
  The function that \<^verbatim>\<open>Upgrade\<close> hands to \<^verbatim>\<open>ctx.Hijack\<close>: it makes the connection, takes
  the next identifier, runs the open callback and serves the connection.
\<close>

definition hijacked :: "Server \<Rightarrow> pick list \<Rightarrow> socket \<Rightarrow> Server \<times> Conn outcome" where
  "hijacked s picks c =
     (let conn = acquireConn c;
          s1 = s\<lparr>nextID := nextID s + 1\<rparr>;
          conn1 = conn\<lparr>conn_id := nextID s1\<rparr>;
          conn2 = (if openHandler s1 then invoke OnOpen conn1 else conn1)
      in (s1, serveConn s1 picks conn2))"

section \<open>Protocol selection (upgrader.go)\<close>

text \<open>
  \<^verbatim>\<open>selectProtocol(protos [][]byte, accepted []string) string\<close>. Both the offers and the
  supported names are byte strings; \<^verbatim>\<open>b2s\<close> only reinterprets the bytes. The inner loop
  returns the first supported entry equal to the offer, the outer loop the first offer for
  which the inner loop returns.
\<close>

fun selectProtocol_inner :: "string \<Rightarrow> string list \<Rightarrow> string option" where
  "selectProtocol_inner proto [] = None"
| "selectProtocol_inner proto (accept # accepted) =
     (if proto = accept then Some accept else selectProtocol_inner proto accepted)"

fun selectProtocol_outer :: "string list \<Rightarrow> string list \<Rightarrow> string option" where
  "selectProtocol_outer [] accepted = None"
| "selectProtocol_outer (proto # protos) accepted =
     (case selectProtocol_inner proto accepted of
        Some accept \<Rightarrow> Some accept
      | None \<Rightarrow> selectProtocol_outer protos accepted)"

definition selectProtocol :: "string list \<Rightarrow> string list \<Rightarrow> string" where
  "selectProtocol protos accepted =
     (if length protos = 0 then ''''
      else case selectProtocol_outer protos accepted of
             Some accept \<Rightarrow> accept
           | None \<Rightarrow> (case protos of p0 # rest \<Rightarrow> p0 | [] \<Rightarrow> ''''))"


section \<open>Values used in the statements\<close>

text \<open>The payload of a frame as the handlers see it, after \<^verbatim>\<open>handleFrame\<close> has unmasked a
  masked frame.\<close>

definition decoded :: "Frame \<Rightarrow> bytes" where
  "decoded fr = Payload (if IsMasked fr then Unmask fr else fr)"

text \<open>An unmasked frame as the reader hands it over.\<close>

definition plain_frame :: "bool \<Rightarrow> 4 word \<Rightarrow> bytes \<Rightarrow> Frame" where
  "plain_frame f code data = SetPayload data (SetCode code (AcquireFrame\<lparr>fin := f\<rparr>))"

text \<open>A server with every callback registered and the default frame handler, and a fresh
  connection on a working socket.\<close>

definition all_callbacks :: Server where
  "all_callbacks =
     initServer (HandleError (HandlePong (HandlePing (HandleClose (HandleOpen (HandleData
       \<lparr>Protocols = [], Origin = [], nextID = 0, openHandler = False, frHandler = None,
        closeHandler = False, msgHandler = False, pingHandler = False, pongHandler = False,
        errHandler = False\<rparr>))))))"

definition fresh_conn :: Conn where
  "fresh_conn = acquireConn new_socket"

fun is_OnClose :: "event \<Rightarrow> bool" where
  "is_OnClose (OnClose err) = True"
| "is_OnClose ev = False"

definition close_calls :: "Conn \<Rightarrow> nat" where
  "close_calls c = length (filter is_OnClose (calls c))"

section \<open>Facts about the frame operations\<close>

lemma be16_roundtrip: "get_be16 (ucast (drop_bit 8 w)) (ucast w) = w"
  unfolding get_be16_def
  by (rule bit_word_eqI) (auto simp: bit_simps)

lemma Status_SetStatus_fresh:
  "Status (SetStatus (StatusValue w) fr) = StatusValue w"
  by (simp add: Status_def SetStatus_def be16_def be16_roundtrip)

lemma selectProtocol_inner_None:
  "selectProtocol_inner proto accepted = None \<longleftrightarrow> proto \<notin> set accepted"
  by (induction accepted) auto

lemma selectProtocol_inner_Some:
  "proto \<in> set accepted \<Longrightarrow> selectProtocol_inner proto accepted = Some proto"
  by (induction accepted) auto

lemma selectProtocol_outer_None:
  "\<forall>q \<in> set protos. q \<notin> set accepted \<Longrightarrow> selectProtocol_outer protos accepted = None"
  by (induction protos) (auto simp: selectProtocol_inner_None split: option.splits)

lemma selectProtocol_outer_first:
  "\<forall>q \<in> set pre. q \<notin> set accepted \<Longrightarrow> p \<in> set accepted \<Longrightarrow>
   selectProtocol_outer (pre @ p # post) accepted = Some p"
proof (induction pre)
  case Nil
  then show ?case by (simp add: selectProtocol_inner_Some)
next
  case (Cons q pre)
  then have "selectProtocol_inner q accepted = None"
    by (simp add: selectProtocol_inner_None)
  with Cons show ?case by simp
qed

section \<open>Protocol selection\<close>

text \<open>
  C8. For every list of client offers and every ordered list of supported protocols,
  \<^verbatim>\<open>selectProtocol\<close> returns the first offer that equals some supported entry; when no
  offer matches it returns the first offer; when there is no offer it returns the empty
  string.
\<close>

theorem selectProtocol_first_match:
  "selectProtocol [] accepted = ''''
   \<and> ((\<forall>q \<in> set pre. q \<notin> set accepted) \<and> p \<in> set accepted
        \<longrightarrow> selectProtocol (pre @ p # post) accepted = p)
   \<and> (protos \<noteq> [] \<and> (\<forall>q \<in> set protos. q \<notin> set accepted)
        \<longrightarrow> selectProtocol protos accepted = hd protos)"
proof (intro conjI impI)
  show "selectProtocol [] accepted = ''''"
    by (simp add: selectProtocol_def)
next
  assume "(\<forall>q \<in> set pre. q \<notin> set accepted) \<and> p \<in> set accepted"
  then show "selectProtocol (pre @ p # post) accepted = p"
    by (simp add: selectProtocol_def selectProtocol_outer_first)
next
  assume "protos \<noteq> [] \<and> (\<forall>q \<in> set protos. q \<notin> set accepted)"
  then have "selectProtocol_outer protos accepted = None" and "protos \<noteq> []"
    by (simp_all add: selectProtocol_outer_None)
  then show "selectProtocol protos accepted = hd protos"
    by (cases protos) (simp_all add: selectProtocol_def)
qed

theorem selectProtocol_first_match_witness:
  "selectProtocol [] [''chat'', ''mqtt''] = ''''
   \<and> selectProtocol [''soap'', ''mqtt'', ''chat''] [''chat'', ''mqtt''] = ''mqtt''
   \<and> selectProtocol [''soap'', ''wamp''] [''chat'', ''mqtt''] = ''soap''"
  using selectProtocol_first_match
          [of "[''chat'', ''mqtt'']" "[''soap'']" "''mqtt''" "[''chat'']" "[''soap'', ''wamp'']"]
  by simp

section \<open>Endpoint defaults\<close>

text \<open>
  C9. A freshly constructed connection has an inbound queue of capacity 128, an outbound
  queue of capacity 128, an error mailbox of capacity 2 and a maximum payload size of
  \<open>1 << 20\<close> bytes; the maximum payload size is a field of the connection, and a value
  assigned to it is the one the connection's writer puts on the frames it writes.
\<close>

theorem acquireConn_defaults:
  "cap (input_ch (acquireConn so)) = 128 \<and> buf (input_ch (acquireConn so)) = []
   \<and> cap (output_ch (acquireConn so)) = 128 \<and> buf (output_ch (acquireConn so)) = []
   \<and> cap (errch (acquireConn so)) = 2 \<and> buf (errch (acquireConn so)) = []
   \<and> MaxPayloadSize (acquireConn so) = 2 ^ 20
   \<and> MaxPayloadSize ((acquireConn so)\<lparr>MaxPayloadSize := m\<rparr>) = m
   \<and> wire (sock (fst (writeFrame fr ((acquireConn new_socket)\<lparr>MaxPayloadSize := m\<rparr>))))
       = [fr\<lparr>maxSize := m\<rparr>]"
  by (simp add: acquireConn_def reset_def zero_Conn_def make_chan_def DefaultPayloadSize_def
                writeFrame_def sock_write_def new_socket_def SetPayloadSize_def Let_def)

section \<open>Unfolding the model\<close>

lemmas frame_defs =
  IsFin_def IsMasked_def Code_def IsControl_def IsPing_def IsPong_def IsClose_def
  SetFin_def SetCode_def SetClose_def SetPing_def SetText_def SetPayload_def SetPayloadSize_def
  Write_frame_def Status_def SetStatus_def Payload_def Unmask_def AcquireFrame_def
  CodeContinuation_def CodeText_def CodeBinary_def CodeClose_def CodePing_def CodePong_def
  decoded_def plain_frame_def be16_def get_be16_def DefaultPayloadSize_def

lemmas chan_defs = make_chan_def send_def try_send_def recv_def ready_def

lemmas conn_defs =
  invoke_def zero_Conn_def reset_def acquireConn_def writeFrame_def WriteFrame_def
  isClosed_def closeOnce_Do_def CloseDetail_def Close_def new_socket_def sock_write_def
  sock_Close_def fresh_conn_def

lemmas server_defs =
  initServer_def HandleData_def HandleOpen_def HandleClose_def HandlePing_def HandlePong_def
  HandleError_def HandleFrame_def handleFrameData_def handlePing_def handlePong_def
  handleClose_def handleControl_def handleFrame_def call_frHandler_def all_callbacks_def

lemma handleFrame_data:
  "\<not> IsControl fr \<Longrightarrow>
   handleFrame s fr c = Returned (handleFrameData s (if IsMasked fr then Unmask fr else fr) c)"
  by (simp add: handleFrame_def IsControl_def Unmask_def IsMasked_def)

lemma handleFrameData_calls:
  "\<exists>evs. calls (handleFrameData s fr c) = calls c @ evs \<and> (\<forall>b. OnMessage b [] \<notin> set evs)"
  by (auto simp: handleFrameData_def invoke_def Let_def split: option.splits)

lemma handleFrame_calls:
  assumes "handleFrame s fr c = Returned c' \<or> handleFrame s fr c = Parked c'"
  shows "\<exists>evs. calls c' = calls c @ evs \<and> (\<forall>b. OnMessage b [] \<notin> set evs)"
proof (cases "IsControl (if IsMasked fr then Unmask fr else fr)")
  case False
  with assms have "c' = handleFrameData s (if IsMasked fr then Unmask fr else fr) c"
    by (auto simp: handleFrame_def Let_def)
  then show ?thesis using handleFrameData_calls by simp
next
  case True
  with assms have "handleControl s (if IsMasked fr then Unmask fr else fr) c = Returned c'
     \<or> handleControl s (if IsMasked fr then Unmask fr else fr) c = Parked c'"
    by (auto simp: handleFrame_def Let_def)
  then show ?thesis
    by (auto simp: handleControl_def handlePing_def handlePong_def handleClose_def WriteFrame_def
                   closeOnce_Do_def invoke_def send_def Let_def
             split: if_splits option.splits)
qed

lemma handleFrames_calls:
  "handleFrames s frs c = Returned c' \<or> handleFrames s frs c = Parked c' \<Longrightarrow>
   \<exists>evs. calls c' = calls c @ evs \<and> (\<forall>b. OnMessage b [] \<notin> set evs)"
proof (induction frs arbitrary: c)
  case Nil
  then show ?case by simp
next
  case (Cons fr frs)
  show ?case
  proof (cases "handleFrame s fr c")
    case (Returned c1)
    with Cons.prems have "handleFrames s frs c1 = Returned c' \<or> handleFrames s frs c1 = Parked c'"
      by simp
    from Cons.IH [OF this] obtain evs2 where
      e2: "calls c' = calls c1 @ evs2" "\<forall>b. OnMessage b [] \<notin> set evs2" by blast
    from handleFrame_calls [of s fr c c1] Returned obtain evs1 where
      e1: "calls c1 = calls c @ evs1" "\<forall>b. OnMessage b [] \<notin> set evs1" by blast
    from e1 e2 have "calls c' = calls c @ (evs1 @ evs2) \<and> (\<forall>b. OnMessage b [] \<notin> set (evs1 @ evs2))"
      by simp
    then show ?thesis by blast
  next
    case (Parked c1)
    with Cons.prems have "c' = c1" by simp
    with handleFrame_calls [of s fr c c1] Parked show ?thesis by simp
  next
    case Panicked
    with Cons.prems show ?thesis by simp
  qed
qed

lemma handleFrame_empty_message:
  assumes "\<not> IsControl fr" "IsFin fr" "decoded fr = []" "buffered c = None \<or> buffered c = Some []"
  shows "handleFrame s fr c = Returned (c\<lparr>buffered := None\<rparr>)"
  using assms
  by (auto simp: handleFrame_data handleFrameData_def decoded_def IsFin_def Unmask_def Let_def)

lemma Unmask_fields [simp]:
  "fin (Unmask fr) = fin fr" "opcode (Unmask fr) = opcode fr" "masked (Unmask fr) = masked fr"
  by (simp_all add: Unmask_def)

lemma data_frame_not_control:
  "Code fr = CodeContinuation \<or> Code fr = CodeText \<or> Code fr = CodeBinary \<Longrightarrow> \<not> IsControl fr"
  by (elim disjE)
     (simp_all add: Code_def IsControl_def CodeContinuation_def CodeText_def CodeBinary_def
                    word_le_nat_alt)

section \<open>Messages delivered by the default frame handler\<close>

text \<open>
  C10. The message callback is never invoked with zero-length data: whatever frames the
  default frame handler processes, none of the callback invocations it adds is a message with
  empty data; and a final text or binary frame that completes a message whose reassembled
  payload is empty (no buffer, or an empty buffer, and an empty payload) is dropped without
  any callback.
\<close>

theorem message_callback_never_empty:
  "((handleFrames s frs c = Returned c' \<or> handleFrames s frs c = Parked c')
      \<longrightarrow> (\<exists>evs. calls c' = calls c @ evs \<and> (\<forall>b. OnMessage b [] \<notin> set evs)))
   \<and> ((Code fr = CodeText \<or> Code fr = CodeBinary) \<and> IsFin fr \<and> decoded fr = []
        \<and> (buffered c = None \<or> buffered c = Some [])
      \<longrightarrow> handleFrame s fr c = Returned (c\<lparr>buffered := None\<rparr>)
          \<and> calls (c\<lparr>buffered := None\<rparr>) = calls c)"
proof (intro conjI impI)
  assume "handleFrames s frs c = Returned c' \<or> handleFrames s frs c = Parked c'"
  then show "\<exists>evs. calls c' = calls c @ evs \<and> (\<forall>b. OnMessage b [] \<notin> set evs)"
    by (rule handleFrames_calls)
next
  assume a: "(Code fr = CodeText \<or> Code fr = CodeBinary) \<and> IsFin fr \<and> decoded fr = []
        \<and> (buffered c = None \<or> buffered c = Some [])"
  then have "\<not> IsControl fr"
    by (simp add: data_frame_not_control)
  with a show "handleFrame s fr c = Returned (c\<lparr>buffered := None\<rparr>)"
    by (simp add: handleFrame_empty_message)
next
  show "calls (c\<lparr>buffered := None\<rparr>) = calls c" by simp
qed

theorem message_callback_never_empty_witness:
  "(\<exists>evs. calls (fresh_conn\<lparr>calls := [OnMessage True [104, 105]]\<rparr>) = calls fresh_conn @ evs
          \<and> (\<forall>b. OnMessage b [] \<notin> set evs))
   \<and> handleFrame all_callbacks (plain_frame True CodeText []) fresh_conn
       = Returned (fresh_conn\<lparr>buffered := None\<rparr>)"
proof -
  have h1: "handleFrames all_callbacks
              [plain_frame True CodeText [], plain_frame True CodeBinary [104, 105]] fresh_conn
            = Returned (fresh_conn\<lparr>calls := [OnMessage True [104, 105]]\<rparr>)"
    by (simp add: frame_defs chan_defs conn_defs server_defs Let_def)
  have h2: "(Code (plain_frame True CodeText []) = CodeText
              \<or> Code (plain_frame True CodeText []) = CodeBinary)
            \<and> IsFin (plain_frame True CodeText []) \<and> decoded (plain_frame True CodeText []) = []
            \<and> (buffered fresh_conn = None \<or> buffered fresh_conn = Some [])"
    by (simp add: frame_defs conn_defs)
  from message_callback_never_empty
         [of all_callbacks
             "[plain_frame True CodeText [], plain_frame True CodeBinary [104, 105]]"
             fresh_conn "fresh_conn\<lparr>calls := [OnMessage True [104, 105]]\<rparr>"
             "plain_frame True CodeText []"]
       h1 h2
  show ?thesis by blast
qed

lemma not_8_le [simp]:
  "\<not> (8::4 word) \<le> 0" "\<not> (8::4 word) \<le> 1" "\<not> (8::4 word) \<le> 2"
  "(8::4 word) \<le> 8" "(8::4 word) \<le> 9" "(8::4 word) \<le> 10"
  by (simp_all add: word_le_nat_alt)

section \<open>Ping\<close>

text \<open>
  C3. For every received ping frame (with room in the outbound queue, so that the send does
  not wait), the default frame handler enqueues a pong frame with the same payload, FIN set
  and opcode pong; when a ping callback is registered it is invoked with the payload, and the
  pong is enqueued whether or not a ping callback is registered.
\<close>

theorem ping_autoresponse:
  assumes "IsPing fr" and "length (buf (output_ch c)) < cap (output_ch c)"
  shows "\<exists>pong c'. handleFrame s fr c = Returned c'
           \<and> buf (output_ch c') = buf (output_ch c) @ [pong]
           \<and> Payload pong = decoded fr \<and> IsFin pong \<and> Code pong = CodePong \<and> \<not> IsMasked pong
           \<and> calls c' = calls c @ (if pingHandler s then [OnPing (decoded fr)] else [])"
  using assms
  by (simp add: handleFrame_def handleControl_def handlePing_def WriteFrame_def send_def
                invoke_def frame_defs Let_def)

text \<open>A masked ping with payload \<open>1, 2, 3\<close> on a fresh connection.\<close>

theorem ping_autoresponse_witness:
  "\<exists>pong c'. handleFrame all_callbacks
                 \<lparr>fin = True, opcode = 9, masked = True, maskKey = (1, 2, 3, 4),
                  raw = [0, 0, 0], maxSize = 1024\<rparr> fresh_conn = Returned c'
           \<and> buf (output_ch c') = [pong] \<and> Payload pong = [1, 2, 3] \<and> IsFin pong
           \<and> Code pong = CodePong \<and> \<not> IsMasked pong \<and> calls c' = [OnPing [1, 2, 3]]"
  using ping_autoresponse
          [of "\<lparr>fin = True, opcode = 9, masked = True, maskKey = (1, 2, 3, 4),
                raw = [0, 0, 0], maxSize = 1024\<rparr>" fresh_conn all_callbacks]
  by (simp add: frame_defs chan_defs conn_defs server_defs)

section \<open>Reassembly\<close>

lemma handleFrameData_other_fields:
  "output_ch (handleFrameData s fr c) = output_ch c"
  "closer (handleFrameData s fr c) = closer c"
  "closeOnce (handleFrameData s fr c) = closeOnce c"
  "errch (handleFrameData s fr c) = errch c"
  "sock (handleFrameData s fr c) = sock c"
  by (simp_all add: handleFrameData_def invoke_def Let_def split: option.splits)

lemma handleFrameData_cases:
  "buffered c = None \<Longrightarrow> IsFin fr \<Longrightarrow>
     handleFrameData s fr c =
       (if Payload fr \<noteq> [] \<and> msgHandler s
        then invoke (OnMessage (Code fr = CodeBinary) (Payload fr)) c else c)"
  "buffered c = None \<Longrightarrow> \<not> IsFin fr \<Longrightarrow>
     handleFrameData s fr c = c\<lparr>buffered := Some (Payload fr)\<rparr>"
  "buffered c = Some bf \<Longrightarrow> IsFin fr \<Longrightarrow>
     handleFrameData s fr c =
       (if bf @ Payload fr \<noteq> [] \<and> msgHandler s
        then invoke (OnMessage (Code fr = CodeBinary) (bf @ Payload fr)) (c\<lparr>buffered := None\<rparr>)
        else c\<lparr>buffered := None\<rparr>)"
  "buffered c = Some bf \<Longrightarrow> \<not> IsFin fr \<Longrightarrow>
     handleFrameData s fr c = c\<lparr>buffered := Some (bf @ Payload fr)\<rparr>"
  by (simp_all add: handleFrameData_def Let_def)

lemma unmasked_frame:
  "Payload (if IsMasked fr then Unmask fr else fr) = decoded fr"
  "Code (if IsMasked fr then Unmask fr else fr) = Code fr"
  "IsFin (if IsMasked fr then Unmask fr else fr) = IsFin fr"
  by (simp_all add: decoded_def Code_def IsFin_def)

text \<open>
  C7, as amended. The handler of data frames looks only at whether a reassembly buffer is
  present and at FIN; it never enqueues a close frame, never marks the closer latch and posts
  no error. A continuation frame that arrives with no buffer active is handled like an
  initial frame: with FIN set its payload is delivered (as a non-binary message, when it is
  not empty and a message callback is registered), without FIN it starts a buffer. A text or
  binary frame that arrives while a buffer is present is appended to it like a continuation
  frame, and with FIN set the concatenation is delivered.
\<close>

theorem no_fragmentation_check:
  assumes "\<not> IsControl fr"
  shows "\<exists>c'. handleFrame s fr c = Returned c'
           \<and> output_ch c' = output_ch c \<and> closer c' = closer c \<and> closeOnce c' = closeOnce c
           \<and> errch c' = errch c \<and> sock c' = sock c
           \<and> (Code fr = CodeContinuation \<and> buffered c = None \<longrightarrow>
                 (if IsFin fr
                  then buffered c' = None
                     \<and> calls c' = calls c @ (if decoded fr \<noteq> [] \<and> msgHandler s
                                             then [OnMessage False (decoded fr)] else [])
                  else buffered c' = Some (decoded fr) \<and> calls c' = calls c))
           \<and> (\<forall>bf. (Code fr = CodeText \<or> Code fr = CodeBinary) \<and> buffered c = Some bf \<longrightarrow>
                 (if IsFin fr
                  then buffered c' = None
                     \<and> calls c' = calls c @ (if bf @ decoded fr \<noteq> [] \<and> msgHandler s
                                             then [OnMessage (Code fr = CodeBinary) (bf @ decoded fr)]
                                             else [])
                  else buffered c' = Some (bf @ decoded fr) \<and> calls c' = calls c))"
proof -
  define fr1 where "fr1 = (if IsMasked fr then Unmask fr else fr)"
  define c' where "c' = handleFrameData s fr1 c"
  have r: "handleFrame s fr c = Returned c'"
    using assms by (simp add: handleFrame_data c'_def fr1_def)
  have p: "Payload fr1 = decoded fr" "Code fr1 = Code fr" "IsFin fr1 = IsFin fr"
    by (simp_all add: fr1_def unmasked_frame)
  have f: "output_ch c' = output_ch c \<and> closer c' = closer c \<and> closeOnce c' = closeOnce c
           \<and> errch c' = errch c \<and> sock c' = sock c"
    by (simp add: c'_def handleFrameData_other_fields)
  have a: "Code fr = CodeContinuation \<and> buffered c = None \<longrightarrow>
             (if IsFin fr
              then buffered c' = None
                 \<and> calls c' = calls c @ (if decoded fr \<noteq> [] \<and> msgHandler s
                                         then [OnMessage False (decoded fr)] else [])
              else buffered c' = Some (decoded fr) \<and> calls c' = calls c)"
    by (cases "IsFin fr")
       (auto simp: c'_def handleFrameData_cases p invoke_def CodeContinuation_def CodeBinary_def)
  have b: "\<forall>bf. (Code fr = CodeText \<or> Code fr = CodeBinary) \<and> buffered c = Some bf \<longrightarrow>
             (if IsFin fr
              then buffered c' = None
                 \<and> calls c' = calls c @ (if bf @ decoded fr \<noteq> [] \<and> msgHandler s
                                         then [OnMessage (Code fr = CodeBinary) (bf @ decoded fr)]
                                         else [])
              else buffered c' = Some (bf @ decoded fr) \<and> calls c' = calls c)"
    by (cases "IsFin fr") (auto simp: c'_def handleFrameData_cases p invoke_def)
  from r f a b show ?thesis by blast
qed

text \<open>A final text frame that arrives while the buffer holds \<open>1\<close>.\<close>

theorem no_fragmentation_check_witness:
  "\<exists>c'. handleFrame all_callbacks (plain_frame True CodeText [2])
           (fresh_conn\<lparr>buffered := Some [1]\<rparr>) = Returned c'
         \<and> output_ch c' = output_ch fresh_conn \<and> \<not> closer c'
         \<and> buffered c' = None \<and> calls c' = [OnMessage False [1, 2]]"
proof -
  have h: "\<not> IsControl (plain_frame True CodeText [2])"
    by (simp add: frame_defs)
  from no_fragmentation_check [OF h, of all_callbacks "fresh_conn\<lparr>buffered := Some [1]\<rparr>"]
  show ?thesis
    by (auto simp: frame_defs conn_defs server_defs chan_defs)
qed

text \<open>
  C7 as stated fails: on a fresh connection a final continuation frame is delivered as a
  message, and a binary frame following an unfinished text frame completes that message;
  the outbound queue stays empty and the latch stays open, so no close with status 1002
  is sent.
\<close>

theorem no_fragmentation_check_counterexample:
  "buffered fresh_conn = None
   \<and> handleFrame all_callbacks (plain_frame True CodeContinuation [7]) fresh_conn
       = Returned (fresh_conn\<lparr>calls := [OnMessage False [7]]\<rparr>)
   \<and> buf (output_ch (fresh_conn\<lparr>calls := [OnMessage False [7]]\<rparr>)) = []
   \<and> \<not> closer (fresh_conn\<lparr>calls := [OnMessage False [7]]\<rparr>)
   \<and> handleFrames all_callbacks [plain_frame False CodeText [1], plain_frame True CodeBinary [2]]
        fresh_conn
       = Returned (fresh_conn\<lparr>calls := [OnMessage True [1, 2]]\<rparr>)
   \<and> buf (output_ch (fresh_conn\<lparr>calls := [OnMessage True [1, 2]]\<rparr>)) = []
   \<and> \<not> closer (fresh_conn\<lparr>calls := [OnMessage True [1, 2]]\<rparr>)"
  by (simp add: frame_defs chan_defs conn_defs server_defs Let_def)

lemma handleFrames_append:
  "handleFrames s (xs @ ys) c = and_then (handleFrames s xs c) (handleFrames s ys)"
proof (induction xs arbitrary: c)
  case Nil
  then show ?case by simp
next
  case (Cons x xs)
  then show ?case by (cases "handleFrame s x c") simp_all
qed

lemma handleFrame_buffering:
  assumes "\<not> IsControl fr" "\<not> IsFin fr" "buffered c = Some bf"
  shows "handleFrame s fr c = Returned (c\<lparr>buffered := Some (bf @ decoded fr)\<rparr>)"
  using assms
  by (simp add: handleFrame_data handleFrameData_cases unmasked_frame)

lemma handleFrames_buffering:
  "\<forall>f \<in> set mids. Code f = CodeContinuation \<and> \<not> IsFin f \<Longrightarrow> buffered c = Some bf \<Longrightarrow>
   handleFrames s mids c = Returned (c\<lparr>buffered := Some (bf @ concat (map decoded mids))\<rparr>)"
proof (induction mids arbitrary: c bf)
  case Nil
  then show ?case by simp
next
  case (Cons f mids)
  then have "handleFrame s f c = Returned (c\<lparr>buffered := Some (bf @ decoded f)\<rparr>)"
    by (simp add: handleFrame_buffering data_frame_not_control)
  moreover have "handleFrames s mids (c\<lparr>buffered := Some (bf @ decoded f)\<rparr>)
      = Returned (c\<lparr>buffered := Some (bf @ decoded f)\<rparr>
                   \<lparr>buffered := Some ((bf @ decoded f) @ concat (map decoded mids))\<rparr>)"
    using Cons.prems by (intro Cons.IH) simp_all
  ultimately show ?case by simp
qed

text \<open>
  C1, as amended. For every fragmented message, an initial text or binary frame without FIN
  followed by continuation frames of which only the last has FIN, received while no
  reassembly is in progress and with a message callback registered: when the concatenation
  of the fragment payloads in arrival order is not empty, the default frame handler invokes
  the message callback exactly once, with that concatenation as data, and with the binary
  flag unset when the initial frame was a text frame; when the concatenation is empty no
  message is delivered. Nothing is stated about the flag of a message whose initial frame
  was binary.
\<close>

theorem fragmented_message_delivery:
  assumes "Code f0 = CodeText \<or> Code f0 = CodeBinary" and "\<not> IsFin f0"
    and "\<forall>f \<in> set mids. Code f = CodeContinuation \<and> \<not> IsFin f"
    and "Code fl = CodeContinuation" and "IsFin fl"
    and "buffered c = None" and "msgHandler s"
  shows "\<exists>c'. handleFrames s (f0 # mids @ [fl]) c = Returned c'
           \<and> buffered c' = None
           \<and> (concat (map decoded (f0 # mids @ [fl])) = [] \<longrightarrow> calls c' = calls c)
           \<and> (concat (map decoded (f0 # mids @ [fl])) \<noteq> [] \<longrightarrow>
                (\<exists>b. calls c' = calls c @ [OnMessage b (concat (map decoded (f0 # mids @ [fl])))]
                     \<and> (Code f0 = CodeText \<longrightarrow> \<not> b)))"
proof -
  define c1 where "c1 = c\<lparr>buffered := Some (decoded f0)\<rparr>"
  define bf where "bf = decoded f0 @ concat (map decoded mids)"
  define c2 where "c2 = c1\<lparr>buffered := Some bf\<rparr>"
  define fl1 where "fl1 = (if IsMasked fl then Unmask fl else fl)"
  have n0: "\<not> IsControl f0" and nl: "\<not> IsControl fl"
    using assms(1,4) by (simp_all add: data_frame_not_control)
  have s0: "handleFrame s f0 c = Returned c1"
    using n0 assms(2,6)
    by (simp add: handleFrame_data handleFrameData_cases unmasked_frame c1_def)
  have s1: "handleFrames s mids c1 = Returned c2"
    unfolding c2_def bf_def
    by (rule handleFrames_buffering [OF assms(3)]) (simp add: c1_def)
  have s2: "handleFrame s fl c2 = Returned (handleFrameData s fl1 c2)"
    using nl by (simp add: handleFrame_data fl1_def)
  have all: "concat (map decoded (f0 # mids @ [fl])) = bf @ decoded fl"
    by (simp add: bf_def)
  have nb: "Code fl1 \<noteq> CodeBinary"
    using assms(4) by (simp add: fl1_def unmasked_frame CodeContinuation_def CodeBinary_def)
  have d: "handleFrameData s fl1 c2 =
             (if bf @ decoded fl \<noteq> []
              then invoke (OnMessage False (bf @ decoded fl)) (c2\<lparr>buffered := None\<rparr>)
              else c2\<lparr>buffered := None\<rparr>)"
  proof -
    have b2: "buffered c2 = Some bf" by (simp add: c2_def)
    have fl1: "IsFin fl1" "Payload fl1 = decoded fl"
      using assms(5) by (simp_all add: fl1_def unmasked_frame)
    show ?thesis
      using assms(7) nb fl1(2) by (simp add: handleFrameData_cases(3) [OF b2 fl1(1)])
  qed
  have run: "handleFrames s (f0 # mids @ [fl]) c = Returned (handleFrameData s fl1 c2)"
    by (simp add: s0 handleFrames_append s1 s2)
  show ?thesis
    unfolding run all d
    by (auto simp: invoke_def c2_def c1_def)
qed

text \<open>The fragments \<open>Hel\<close>, \<open>lo \<close> and \<open>world\<close> of a text message.\<close>

theorem fragmented_message_delivery_witness:
  "\<exists>c'. handleFrames all_callbacks
           [plain_frame False CodeText [72, 101, 108], plain_frame False CodeContinuation [108, 111, 32],
            plain_frame True CodeContinuation [119, 111, 114, 108, 100]] fresh_conn = Returned c'
         \<and> buffered c' = None
         \<and> calls c' = [OnMessage False [72, 101, 108, 108, 111, 32, 119, 111, 114, 108, 100]]"
proof -
  have h: "Code (plain_frame False CodeText [72, 101, 108]) = CodeText
             \<or> Code (plain_frame False CodeText [72, 101, 108]) = CodeBinary"
    "\<not> IsFin (plain_frame False CodeText [72, 101, 108])"
    "\<forall>f \<in> set [plain_frame False CodeContinuation [108, 111, 32]].
        Code f = CodeContinuation \<and> \<not> IsFin f"
    "Code (plain_frame True CodeContinuation [119, 111, 114, 108, 100]) = CodeContinuation"
    "IsFin (plain_frame True CodeContinuation [119, 111, 114, 108, 100])"
    "buffered fresh_conn = None" "msgHandler all_callbacks"
    by (simp_all add: frame_defs conn_defs server_defs)
  from fragmented_message_delivery [OF h]
  show ?thesis
    by (auto simp: frame_defs conn_defs chan_defs)
qed

text \<open>
  C1 as stated fails twice: a fragmented text message whose fragments are all empty is not
  delivered at all, and a fragmented binary message is delivered with the binary flag unset,
  because the flag is computed from the opcode of the frame that completes the message.
\<close>

theorem fragmented_message_delivery_counterexample:
  "handleFrames all_callbacks
     [plain_frame False CodeText [], plain_frame True CodeContinuation []] fresh_conn
     = Returned fresh_conn
   \<and> calls fresh_conn = []
   \<and> handleFrames all_callbacks
       [plain_frame False CodeBinary [1], plain_frame True CodeContinuation [2]] fresh_conn
     = Returned (fresh_conn\<lparr>calls := [OnMessage False [1, 2]]\<rparr>)"
  by (simp add: frame_defs chan_defs conn_defs server_defs Let_def)

section \<open>The supervisor loop\<close>

declare serveConn_loop.simps [simp del] writeLoop_select.simps [simp del] flush_loop.simps [simp del]

lemma select_errch:
  "buf (errch c) = err # rest \<Longrightarrow> select_case (PickErrch # ps) c = Some PickErrch"
  by (simp add: select_case_def case_ready_def ready_def)

text \<open>
  C5, as amended. When the supervisor's \<^verbatim>\<open>select\<close> receives from the error mailbox, the
  loop ends if the value is an error wrapped as a close-error (the wrapped error becomes the
  close cause), if it is a typed close error with status and reason (it becomes the close
  cause itself) or if it is nil (the close cause stays what it was); every other error is
  passed to the error callback, when one is registered, and the loop continues.
\<close>

theorem supervisor_error_mailbox:
  assumes "buf (errch c) = err # rest"
  shows "(\<forall>e. err = Some (closeError e) \<longrightarrow>
            serveConn_loop s (PickErrch # ps) closeErr c
              = Returned (c\<lparr>errch := (errch c)\<lparr>buf := rest\<rparr>\<rparr>, e))
       \<and> (\<forall>status reason. err = Some (Error status reason) \<longrightarrow>
            serveConn_loop s (PickErrch # ps) closeErr c
              = Returned (c\<lparr>errch := (errch c)\<lparr>buf := rest\<rparr>\<rparr>, Some (Error status reason)))
       \<and> (err = None \<longrightarrow>
            serveConn_loop s (PickErrch # ps) closeErr c
              = Returned (c\<lparr>errch := (errch c)\<lparr>buf := rest\<rparr>\<rparr>, closeErr))
       \<and> (\<forall>m. err = Some (errOther m) \<longrightarrow>
            serveConn_loop s (PickErrch # ps) closeErr c
              = serveConn_loop s ps closeErr
                  (if errHandler s
                   then invoke (OnError (errOther m)) (c\<lparr>errch := (errch c)\<lparr>buf := rest\<rparr>\<rparr>)
                   else c\<lparr>errch := (errch c)\<lparr>buf := rest\<rparr>\<rparr>))"
  using assms
  by (simp add: serveConn_loop.simps [of s "PickErrch # ps"] select_errch recv_def)

text \<open>An opaque error followed by a wrapped end-of-file error: the first is reported and the
  loop goes on, the second ends the loop as the close cause.\<close>

theorem supervisor_error_mailbox_witness:
  "serveConn_loop all_callbacks [PickErrch, PickErrch] None
     (fresh_conn\<lparr>errch := (errch fresh_conn)
        \<lparr>buf := [Some (errOther ''odd''), Some (closeError (Some (errOther ''EOF'')))]\<rparr>\<rparr>)
   = Returned (fresh_conn\<lparr>errch := (errch fresh_conn)\<lparr>buf := []\<rparr>,
                           calls := [OnError (errOther ''odd'')]\<rparr>,
               Some (errOther ''EOF''))"
proof -
  let ?c = "fresh_conn\<lparr>errch := (errch fresh_conn)
        \<lparr>buf := [Some (errOther ''odd''), Some (closeError (Some (errOther ''EOF'')))]\<rparr>\<rparr>"
  let ?c1 = "invoke (OnError (errOther ''odd''))
               (?c\<lparr>errch := (errch ?c)\<lparr>buf := [Some (closeError (Some (errOther ''EOF'')))]\<rparr>\<rparr>)"
  have h0: "buf (errch ?c) = [Some (errOther ''odd''), Some (closeError (Some (errOther ''EOF'')))]"
    by simp
  have h1: "buf (errch ?c1) = [Some (closeError (Some (errOther ''EOF'')))]"
    by (simp add: invoke_def)
  have e: "errHandler all_callbacks"
    by (simp add: server_defs)
  from supervisor_error_mailbox [OF h0, of all_callbacks "[PickErrch]" None]
       supervisor_error_mailbox [OF h1, of all_callbacks "[]" None] e
  show ?thesis
    by (simp add: invoke_def conn_defs chan_defs)
qed

text \<open>
  C5 as stated fails: the typed error that \<^verbatim>\<open>handleClose\<close> posts for a peer's close
  (status 1001, reason \<open>bye\<close>) is not wrapped as a close-error, yet when the supervisor
  receives it the loop ends with it as the close cause, and the registered error callback is
  not invoked.
\<close>

theorem supervisor_error_mailbox_counterexample:
  "errHandler all_callbacks
   \<and> handleFrame all_callbacks (plain_frame True CodeClose [3, 233, 98, 121, 101]) fresh_conn
     = Returned (fresh_conn
         \<lparr>output_ch := (output_ch fresh_conn)\<lparr>buf := [plain_frame True CodeClose [3, 233]]\<rparr>,
          errch := (errch fresh_conn)\<lparr>buf := [Some (Error (StatusValue 1001) [98, 121, 101])]\<rparr>,
          closeOnce := True, closer := True\<rparr>)
   \<and> serveConn_loop all_callbacks [PickErrch] None
       (fresh_conn
         \<lparr>output_ch := (output_ch fresh_conn)\<lparr>buf := [plain_frame True CodeClose [3, 233]]\<rparr>,
          errch := (errch fresh_conn)\<lparr>buf := [Some (Error (StatusValue 1001) [98, 121, 101])]\<rparr>,
          closeOnce := True, closer := True\<rparr>)
     = Returned (fresh_conn
         \<lparr>output_ch := (output_ch fresh_conn)\<lparr>buf := [plain_frame True CodeClose [3, 233]]\<rparr>,
          closeOnce := True, closer := True\<rparr>,
        Some (Error (StatusValue 1001) [98, 121, 101]))
   \<and> calls (fresh_conn
         \<lparr>output_ch := (output_ch fresh_conn)\<lparr>buf := [plain_frame True CodeClose [3, 233]]\<rparr>,
          closeOnce := True, closer := True\<rparr>) = []"
  by (simp add: serveConn_loop.simps [of _ "[PickErrch]"] select_case_def case_ready_def
                frame_defs chan_defs conn_defs server_defs Let_def)

section \<open>Local close\<close>

lemma CloseDetail_open:
  assumes "\<not> closer c" "\<not> closeOnce c" "length (buf (output_ch c)) < cap (output_ch c)"
  shows "CloseDetail status reason c =
           Returned (c\<lparr>output_ch := (output_ch c)
                        \<lparr>buf := buf (output_ch c) @
                           [Write_frame reason (SetFin (SetStatus status (SetClose AcquireFrame)))]\<rparr>,
                      closeOnce := True, closer := True\<rparr>)"
  using assms
  by (simp add: CloseDetail_def isClosed_def WriteFrame_def send_def closeOnce_Do_def Let_def)

lemma CloseDetail_closed: "closer c \<Longrightarrow> CloseDetail status reason c = Returned c"
  by (simp add: CloseDetail_def isClosed_def)

lemma CloseDetail_times_closed: "closer c \<Longrightarrow> CloseDetail_times args c = Returned c"
  by (induction args) (auto simp: CloseDetail_closed)

lemma close_frame_IsClose:
  "IsClose (Write_frame reason (SetFin (SetStatus status (SetClose AcquireFrame))))"
  by (cases status) (simp_all add: frame_defs)

lemma call_frHandler_close_calls:
  "call_frHandler s fr c = Returned c' \<Longrightarrow> close_calls c' = close_calls c"
  by (auto simp: call_frHandler_def handleFrame_def handleControl_def handlePing_def
                 handlePong_def handleClose_def handleFrameData_def WriteFrame_def
                 closeOnce_Do_def invoke_def send_def close_calls_def Let_def
           split: option.splits FrameHandler.splits if_splits)

lemma serveConn_errch_close_calls:
  "serveConn_errch s err closeErr c = Inl (c', ce) \<Longrightarrow> close_calls c' = close_calls c"
  "serveConn_errch s err closeErr c = Inr c' \<Longrightarrow> close_calls c' = close_calls c"
  by (auto simp: close_calls_def invoke_def elim!: serveConn_errch.elims split: if_splits)

lemma serveConn_loop_close_calls:
  "serveConn_loop s picks closeErr c = Returned (c', ce) \<Longrightarrow> close_calls c' = close_calls c"
proof (induction s picks closeErr c rule: serveConn_loop.induct)
  case (1 s picks closeErr c)
  show ?case
  proof (cases "select_case picks c")
    case None
    with "1.prems" show ?thesis by (simp add: serveConn_loop.simps [of s picks])
  next
    case (Some p)
    show ?thesis
    proof (cases p)
      case PickCloser
      with Some "1.prems" show ?thesis by (simp add: serveConn_loop.simps [of s picks])
    next
      case PickInput
      show ?thesis
      proof (cases "recv (input_ch c)")
        case None
        with Some PickInput "1.prems" show ?thesis by (simp add: serveConn_loop.simps [of s picks])
      next
        case r: (Some a)
        obtain fr ch where a: "a = (fr, ch)" by (cases a)
        show ?thesis
        proof (cases "call_frHandler s fr (c\<lparr>input_ch := ch\<rparr>)")
          case (Returned c1)
          with Some PickInput r a "1.prems"
          have "serveConn_loop s (tl picks) closeErr c1 = Returned (c', ce)"
            by (simp add: serveConn_loop.simps [of s picks])
          with "1.IH"(1) [OF Some PickInput r a [symmetric] Returned]
          have "close_calls c' = close_calls c1" by simp
          moreover from call_frHandler_close_calls [OF Returned]
          have "close_calls c1 = close_calls c" by (simp add: close_calls_def)
          ultimately show ?thesis by simp
        next
          case (Parked c1)
          with Some PickInput r a "1.prems" show ?thesis
            by (simp add: serveConn_loop.simps [of s picks])
        next
          case Panicked
          with Some PickInput r a "1.prems" show ?thesis
            by (simp add: serveConn_loop.simps [of s picks])
        qed
      qed
    next
      case PickErrch
      show ?thesis
      proof (cases "recv (errch c)")
        case None
        with Some PickErrch "1.prems" show ?thesis by (simp add: serveConn_loop.simps [of s picks])
      next
        case r: (Some a)
        obtain err ch where a: "a = (err, ch)" by (cases a)
        show ?thesis
        proof (cases "serveConn_errch s err closeErr (c\<lparr>errch := ch\<rparr>)")
          case (Inl x)
          with Some PickErrch r a "1.prems" have "x = (c', ce)"
            by (simp add: serveConn_loop.simps [of s picks])
          with Inl serveConn_errch_close_calls(1) [of s err closeErr "c\<lparr>errch := ch\<rparr>" c' ce]
          show ?thesis by (simp add: close_calls_def)
        next
          case (Inr c1)
          with Some PickErrch r a "1.prems"
          have "serveConn_loop s (tl picks) closeErr c1 = Returned (c', ce)"
            by (simp add: serveConn_loop.simps [of s picks])
          with "1.IH"(2) [OF Some PickErrch r a [symmetric] Inr]
          have "close_calls c' = close_calls c1" by simp
          moreover from serveConn_errch_close_calls(2) [OF Inr]
          have "close_calls c1 = close_calls c" by (simp add: close_calls_def)
          ultimately show ?thesis by simp
        qed
      qed
    qed
  qed
qed

lemma serveConn_close_calls:
  assumes "closeHandler s" "serveConn_loop s picks None c = Returned (c2, ce)"
  shows "\<exists>c3. (serveConn s picks c = Returned c3 \<or> serveConn s picks c = Parked c3)
              \<and> close_calls c3 = close_calls c + 1"
proof -
  from serveConn_loop_close_calls [OF assms(2)] have "close_calls c2 = close_calls c" .
  with assms show ?thesis
    by (auto simp: serveConn_def Let_def invoke_def close_calls_def)
qed

text \<open>
  C4. On a connection that is not yet closed (with room in the outbound queue, so that the
  send does not wait), invoking the local close operation one or more times, one call after
  the other, enqueues exactly one close frame, closes the closer latch once (the calls after
  the first return without changing anything, and none panics), and invokes no callback
  itself; the latch then lets the supervisor loop end, and whenever the loop ends the close
  callback has been invoked exactly once.
\<close>

theorem local_close_idempotent:
  assumes "\<not> closer c" and "\<not> closeOnce c"
    and "length (buf (output_ch c)) < cap (output_ch c)" and "closeHandler s"
  shows "\<exists>fr c1. CloseDetail_times ((status, reason) # later) c = Returned c1
           \<and> CloseDetail status reason c = Returned c1
           \<and> buf (output_ch c1) = buf (output_ch c) @ [fr] \<and> IsClose fr
           \<and> closer c1 \<and> closeOnce c1 \<and> calls c1 = calls c
           \<and> serveConn_loop s (PickCloser # picks) None c1 = Returned (c1, None)
           \<and> (\<forall>picks' c2 ce. serveConn_loop s picks' None c1 = Returned (c2, ce) \<longrightarrow>
                 (\<exists>c3. (serveConn s picks' c1 = Returned c3 \<or> serveConn s picks' c1 = Parked c3)
                       \<and> close_calls c3 = close_calls c + 1))"
proof -
  define fr where "fr = Write_frame reason (SetFin (SetStatus status (SetClose AcquireFrame)))"
  define c1 where
    "c1 = c\<lparr>output_ch := (output_ch c)\<lparr>buf := buf (output_ch c) @ [fr]\<rparr>,
             closeOnce := True, closer := True\<rparr>"
  have first: "CloseDetail status reason c = Returned c1"
    unfolding c1_def fr_def by (rule CloseDetail_open [OF assms(1-3)])
  have cl: "closer c1" by (simp add: c1_def)
  have rest: "CloseDetail_times later c1 = Returned c1"
    using cl by (rule CloseDetail_times_closed)
  have all: "CloseDetail_times ((status, reason) # later) c = Returned c1"
    by (simp add: first rest)
  have q: "buf (output_ch c1) = buf (output_ch c) @ [fr]" "closeOnce c1" "calls c1 = calls c"
    by (simp_all add: c1_def)
  have k: "IsClose fr"
    unfolding fr_def by (rule close_frame_IsClose)
  have ex: "serveConn_loop s (PickCloser # picks) None c1 = Returned (c1, None)"
    using cl by (simp add: serveConn_loop.simps [of s "PickCloser # picks"] select_case_def
                           case_ready_def)
  have cc: "close_calls c1 = close_calls c"
    by (simp add: close_calls_def q)
  have once: "\<forall>picks' c2 ce. serveConn_loop s picks' None c1 = Returned (c2, ce) \<longrightarrow>
      (\<exists>c3. (serveConn s picks' c1 = Returned c3 \<or> serveConn s picks' c1 = Parked c3)
            \<and> close_calls c3 = close_calls c + 1)"
    using serveConn_close_calls [OF assms(4), of _ c1] cc by simp
  from all first q k cl ex once show ?thesis by blast
qed

text \<open>Three local closes on a fresh connection.\<close>

theorem local_close_idempotent_witness:
  "\<exists>fr c1. CloseDetail_times [(StatusValue 1000, []), (StatusNone, [1]), (StatusValue 1001, [])]
              fresh_conn = Returned c1
         \<and> CloseDetail (StatusValue 1000) [] fresh_conn = Returned c1
         \<and> buf (output_ch c1) = [fr] \<and> IsClose fr \<and> closer c1 \<and> closeOnce c1 \<and> calls c1 = []
         \<and> serveConn_loop all_callbacks [PickCloser] None c1 = Returned (c1, None)
         \<and> (\<forall>picks' c2 ce. serveConn_loop all_callbacks picks' None c1 = Returned (c2, ce) \<longrightarrow>
               (\<exists>c3. (serveConn all_callbacks picks' c1 = Returned c3
                        \<or> serveConn all_callbacks picks' c1 = Parked c3)
                     \<and> close_calls c3 = 1))"
proof -
  have h: "\<not> closer fresh_conn" "\<not> closeOnce fresh_conn"
    "length (buf (output_ch fresh_conn)) < cap (output_ch fresh_conn)"
    "closeHandler all_callbacks"
    by (simp_all add: conn_defs chan_defs server_defs)
  have z: "buf (output_ch fresh_conn) = []" "calls fresh_conn = []" "close_calls fresh_conn = 0"
    by (simp_all add: conn_defs chan_defs close_calls_def)
  from local_close_idempotent
         [OF h, of "StatusValue 1000" "[]" "[(StatusNone, [1]), (StatusValue 1001, [])]" "[]"]
  show ?thesis
    unfolding z by simp
qed

section \<open>Close received from the peer\<close>

text \<open>
  What \<^verbatim>\<open>handleClose\<close> does with a close frame that carries a status: it posts the typed
  error with the status and the reason, enqueues a reply close frame with FIN and the same
  status, and marks the latch.
\<close>

lemma peer_close_handled:
  assumes "IsClose fr" and "Status (if IsMasked fr then Unmask fr else fr) = StatusValue w"
    and "length (buf (errch c)) < cap (errch c)"
    and "length (buf (output_ch c)) < cap (output_ch c)"
    and "\<not> closer c" and "\<not> closeOnce c"
  shows "handleFrame s fr c =
           Returned (c\<lparr>errch := (errch c)
                        \<lparr>buf := buf (errch c) @ [Some (Error (StatusValue w) (decoded fr))]\<rparr>,
                      output_ch := (output_ch c)
                        \<lparr>buf := buf (output_ch c) @
                           [SetFin (SetStatus (StatusValue w) (SetClose AcquireFrame))]\<rparr>,
                      closeOnce := True, closer := True\<rparr>)"
proof -
  define fr1 where "fr1 = (if IsMasked fr then Unmask fr else fr)"
  have k: "IsClose fr1" "IsControl fr1" "\<not> IsPing fr1" "\<not> IsPong fr1"
    using assms(1) by (simp_all add: fr1_def IsClose_def IsControl_def IsPing_def IsPong_def
                                     CodeClose_def CodePing_def CodePong_def)
  have p: "Status fr1 = StatusValue w" "Payload fr1 = decoded fr"
    using assms(2) by (simp_all add: fr1_def decoded_def)
  have "handleFrame s fr c = handleClose s fr1 c"
    using k by (simp add: handleFrame_def handleControl_def fr1_def [symmetric])
  also have "\<dots> = Returned (c\<lparr>errch := (errch c)
                        \<lparr>buf := buf (errch c) @ [Some (Error (StatusValue w) (decoded fr))]\<rparr>,
                      output_ch := (output_ch c)
                        \<lparr>buf := buf (output_ch c) @
                           [SetFin (SetStatus (StatusValue w) (SetClose AcquireFrame))]\<rparr>,
                      closeOnce := True, closer := True\<rparr>)"
    using assms(3-6) p
    by (simp add: handleClose_def send_def WriteFrame_def closeOnce_Do_def Let_def)
  finally show ?thesis .
qed

lemma reply_close_frame:
  "IsClose (SetFin (SetStatus (StatusValue w) (SetClose AcquireFrame)))"
  "IsFin (SetFin (SetStatus (StatusValue w) (SetClose AcquireFrame)))"
  "Status (SetFin (SetStatus (StatusValue w) (SetClose AcquireFrame))) = StatusValue w"
  by (simp_all add: IsClose_def IsFin_def SetFin_def SetClose_def SetCode_def
                    Status_def SetStatus_def be16_def be16_roundtrip)

text \<open>
  After \<^verbatim>\<open>handleClose\<close> has returned, both the error mailbox and the closer latch are ready
  in the supervisor's \<^verbatim>\<open>select\<close>. When the mailbox is taken, the close callback receives the
  typed error.
\<close>

lemma peer_close_mailbox_first:
  "serveConn all_callbacks [PickInput, PickErrch]
     (fresh_conn\<lparr>input_ch := (input_ch fresh_conn)
        \<lparr>buf := [plain_frame True CodeClose [3, 233, 98, 121, 101]]\<rparr>\<rparr>)
   = Parked (fresh_conn
       \<lparr>output_ch := (output_ch fresh_conn)\<lparr>buf := [plain_frame True CodeClose [3, 233]]\<rparr>,
        closeOnce := True, closer := True,
        calls := [OnClose (Some (Error (StatusValue 1001) [98, 121, 101]))],
        sock := new_socket\<lparr>sock_closed := True\<rparr>\<rparr>)"
  by (simp add: serveConn_def serveConn_loop.simps select_case_def case_ready_def
                frame_defs chan_defs conn_defs server_defs Let_def)

text \<open>
  C2. A fresh connection receives a close frame with status 1001 and reason \<open>bye\<close>. The
  reply with status 1001 is enqueued and the close callback runs once, but in the run in
  which the supervisor's \<^verbatim>\<open>select\<close> takes the latch case the loop ends with a nil cause:
  the close callback is invoked with nil and the typed error stays unread in the mailbox.
  (The call ends waiting in \<^verbatim>\<open>c.wg.Wait()\<close> for the two worker tasks.)
\<close>

theorem peer_close_latch_first:
  "serveConn_loop all_callbacks [PickInput, PickCloser] None
     (fresh_conn\<lparr>input_ch := (input_ch fresh_conn)
        \<lparr>buf := [plain_frame True CodeClose [3, 233, 98, 121, 101]]\<rparr>\<rparr>)
   = Returned (fresh_conn
       \<lparr>output_ch := (output_ch fresh_conn)\<lparr>buf := [plain_frame True CodeClose [3, 233]]\<rparr>,
        errch := (errch fresh_conn)\<lparr>buf := [Some (Error (StatusValue 1001) [98, 121, 101])]\<rparr>,
        closeOnce := True, closer := True\<rparr>, None)
   \<and> serveConn all_callbacks [PickInput, PickCloser]
     (fresh_conn\<lparr>input_ch := (input_ch fresh_conn)
        \<lparr>buf := [plain_frame True CodeClose [3, 233, 98, 121, 101]]\<rparr>\<rparr>)
   = Parked (fresh_conn
       \<lparr>output_ch := (output_ch fresh_conn)\<lparr>buf := [plain_frame True CodeClose [3, 233]]\<rparr>,
        errch := (errch fresh_conn)\<lparr>buf := [Some (Error (StatusValue 1001) [98, 121, 101])]\<rparr>,
        closeOnce := True, closer := True,
        calls := [OnClose None],
        sock := new_socket\<lparr>sock_closed := True\<rparr>\<rparr>)"
  by (simp add: serveConn_def serveConn_loop.simps select_case_def case_ready_def
                frame_defs chan_defs conn_defs server_defs Let_def)

section \<open>The writer after the latch\<close>

text \<open>
  On a working socket the flush loop writes every frame that is in the queue when it starts,
  in order, and then waits on the empty queue: it runs once more than there are frames.
\<close>

lemma flush_loop_drains:
  "broken (sock c) = None \<Longrightarrow> \<not> sock_closed (sock c) \<Longrightarrow> buf (output_ch c) = q \<Longrightarrow>
   flush_loop (int (length q)) c =
     Parked (c\<lparr>output_ch := (output_ch c)\<lparr>buf := []\<rparr>,
               sock := (sock c)\<lparr>wire := wire (sock c) @ map (SetPayloadSize (MaxPayloadSize c)) q\<rparr>\<rparr>)"
proof (induction q arbitrary: c)
  case Nil
  then show ?case
    by (simp add: flush_loop.simps [of 0] recv_def)
next
  case (Cons fr q)
  let ?c1 = "c\<lparr>output_ch := (output_ch c)\<lparr>buf := q\<rparr>,
               sock := (sock c)\<lparr>wire := wire (sock c) @ [SetPayloadSize (MaxPayloadSize c) fr]\<rparr>\<rparr>"
  have w: "writeFrame fr (c\<lparr>output_ch := (output_ch c)\<lparr>buf := q\<rparr>\<rparr>) = (?c1, None)"
    using Cons.prems by (simp add: writeFrame_def sock_write_def Let_def)
  have "flush_loop (int (length (fr # q))) c = flush_loop (int (length q)) ?c1"
    using Cons.prems(3) w by (simp add: flush_loop.simps [of "1 + int (length q)"] recv_def)
  also have "\<dots> = Parked (?c1\<lparr>output_ch := (output_ch ?c1)\<lparr>buf := []\<rparr>,
               sock := (sock ?c1)\<lparr>wire := wire (sock ?c1) @ map (SetPayloadSize (MaxPayloadSize ?c1)) q\<rparr>\<rparr>)"
    using Cons.prems by (intro Cons.IH) simp_all
  finally show ?case by simp
qed

lemma writeLoop_latch_taken:
  assumes "closer c" "broken (sock c) = None" "\<not> sock_closed (sock c)"
  shows "writeLoop (True # picks) c =
     Parked (c\<lparr>output_ch := (output_ch c)\<lparr>buf := []\<rparr>,
               sock := (sock c)\<lparr>wire := wire (sock c) @
                                   map (SetPayloadSize (MaxPayloadSize c)) (buf (output_ch c))\<rparr>\<rparr>)"
proof -
  have "writeLoop_select (True # picks) c = flush_loop (int (length (buf (output_ch c)))) c"
    using assms(1)
    by (simp add: writeLoop_select.simps [of "True # picks"] recv_def split: list.splits)
  with flush_loop_drains [OF assms(2,3) refl] show ?thesis
    by (simp add: writeLoop_def)
qed

text \<open>In its \<^verbatim>\<open>select\<close> loop the writer returns right after a close frame taken from the
  queue, whether or not the write succeeded.\<close>

lemma writeLoop_returns_after_close_frame:
  assumes "buf (output_ch c) = fr # q" "IsClose fr" "\<not> closer c \<or> picks = [] \<or> \<not> hd picks"
  shows "\<exists>c'. writeLoop picks c = Returned c' \<and> buf (output_ch c') = q \<and> wg c' = wg c - 1
      \<and> (broken (sock c) = None \<and> \<not> sock_closed (sock c) \<longrightarrow>
            wire (sock c') = wire (sock c) @ [SetPayloadSize (MaxPayloadSize c) fr])"
proof -
  have g: "\<not> (closer c \<and> (case picks of [] \<Rightarrow> False | p # ps \<Rightarrow> p))"
    using assms(3) by (cases picks) auto
  have r: "recv (output_ch c) = Some (fr, (output_ch c)\<lparr>buf := q\<rparr>)"
    using assms(1) by (simp add: recv_def)
  have "writeLoop_select picks c =
          (let (c1, err) = writeFrame fr (c\<lparr>output_ch := (output_ch c)\<lparr>buf := q\<rparr>\<rparr>);
               c2 = (case err of
                       None \<Rightarrow> c1
                     | Some e \<Rightarrow> c1\<lparr>errch := try_send (errch c1) (Some (closeError (Some e)))\<rparr>)
           in Returned c2)"
    by (subst writeLoop_select.simps) (simp add: r g assms(2) Let_def split: prod.splits)
  then show ?thesis
    by (auto simp: writeLoop_def writeFrame_def sock_write_def Let_def
             split: option.splits prod.splits)
qed

text \<open>
  C6. The connection has answered a peer's close (status 1001, reason \<open>bye\<close>): the reply is
  in the outbound queue and the latch is marked. When the writer's \<^verbatim>\<open>select\<close> takes the
  latch case (it finds both cases ready when it was busy with an earlier frame while the
  close was answered), the flush loop writes the reply and then waits for a further frame
  instead of returning. The writer task does not exit.
\<close>

theorem writer_parks_after_flush:
  "handleFrame all_callbacks (plain_frame True CodeClose [3, 233, 98, 121, 101]) fresh_conn
   = Returned (fresh_conn
       \<lparr>output_ch := (output_ch fresh_conn)\<lparr>buf := [plain_frame True CodeClose [3, 233]]\<rparr>,
        errch := (errch fresh_conn)\<lparr>buf := [Some (Error (StatusValue 1001) [98, 121, 101])]\<rparr>,
        closeOnce := True, closer := True\<rparr>)
   \<and> writeLoop [True]
       (fresh_conn
         \<lparr>output_ch := (output_ch fresh_conn)\<lparr>buf := [plain_frame True CodeClose [3, 233]]\<rparr>,
          errch := (errch fresh_conn)\<lparr>buf := [Some (Error (StatusValue 1001) [98, 121, 101])]\<rparr>,
          closeOnce := True, closer := True\<rparr>)
   = Parked (fresh_conn
       \<lparr>output_ch := (output_ch fresh_conn)\<lparr>buf := []\<rparr>,
        errch := (errch fresh_conn)\<lparr>buf := [Some (Error (StatusValue 1001) [98, 121, 101])]\<rparr>,
        closeOnce := True, closer := True,
        sock := new_socket\<lparr>wire := [plain_frame True CodeClose [3, 233]]\<rparr>\<rparr>)"
  by (simp add: writeLoop_def writeLoop_select.simps flush_loop.simps
                frame_defs chan_defs conn_defs server_defs Let_def)

end
